theory Spec2Isabelle
  imports Main "HOL-Library.Word"
begin

section \<open>The converged server: data model\<close>

text \<open>
  The translation unit is compiled under three preprocessor switches. Each
  \<^verbatim>\<open>#ifdef\<close> block of the source is a branch on the matching field below, so one
  model covers every build of the file.
\<close>

record build =
  ELOQ_MODULE_ELOQKV :: bool
  ELOQ_MODULE_ELOQSQL :: bool
  BRPC_WITH_GLOG :: bool

text \<open>The members of \<^verbatim>\<open>txservice::TableEngine\<close> this file names.\<close>

datatype TableEngine = EloqSql | EloqKv | EloqDoc

text \<open>
  The two heap objects \<^verbatim>\<open>main\<close> allocates with \<^verbatim>\<open>std::make_unique\<close>. A pointer
  (owning or raw) is an \<open>object option\<close>, \<open>None\<close> being \<^verbatim>\<open>nullptr\<close>.
\<close>

datatype object = BrpcServer | RedisServiceImpl

datatype severity = INFO | ERROR

text \<open>One operand of a \<^verbatim>\<open><<\<close> chain: a string or an integer.\<close>

datatype piece = Str string | Num int

text \<open>
  Everything the coordinator does to the outside world, in program order: calls into
  the substrate, the key-value service and its server, the relational engine's thread,
  the logging library, and the lines written with \<^verbatim>\<open>LOG\<close> and \<^verbatim>\<open>std::cout\<close>.
\<close>

datatype event =
    SetVersionString string
  | ParseCommandLineFlags
  | InitGoogleLogging
  | ShutdownGoogleLogging
  | InstallSignalHandler int
  | Cout "piece list"
  | Log severity "piece list"
  | DataSubstrate_Init string
  | DataSubstrate_EnableEngine TableEngine
  | DataSubstrate_WaitForEnabledEnginesRegistered nat
  | DataSubstrate_Start
  | DataSubstrate_Shutdown
  | Thread_mysqld_main
  | Shutdown_mysqld
  | Thread_join
  | New_Server
  | New_RedisServiceImpl string string
  | GetCommandLineOption string
  | Service_Init
  | Service_Start
  | Service_Stop
  | Server_Start string int "object option" bool
  | Server_GetAcceptor
  | Server_RunUntilAskedToQuit
  | Delete object

record InitState =
  data_substrate_init :: bool
  eloqkv_init :: bool
  eloqsql_thread_started :: bool
  eloqkv_service_ptr :: "object option"

text \<open>
  The globals of the file. \<open>g_eloqsql_thread\<close> holds whether the \<^verbatim>\<open>std::thread\<close> is
  joinable; \<open>trace\<close> is the list of events so far, oldest first.
\<close>

record globals =
  g_shutdown_requested :: bool
  g_init_state :: InitState
  g_eloqkv_server :: "object option"
  g_eloqkv_service :: "object option"
  g_eloqsql_thread :: bool
  trace :: "event list"

text \<open>
  What the process is given and what its collaborators answer: the three command-line
  flags, the two values read from the key-value library (\<^verbatim>\<open>bthread_concurrency\<close> is an
  integer flag, so its text always parses back to that integer), the result of every
  fallible call, and the signals whose handler runs while \<^verbatim>\<open>main\<close> is blocked in
  \<^verbatim>\<open>RunUntilAskedToQuit\<close>.
\<close>

record env =
  FLAGS_config :: string
  FLAGS_eloqkv_config :: string
  FLAGS_eloqsql_config :: string
  bthread_concurrency :: int
  redis_ip_port :: string
  DataSubstrate_Init_result :: bool
  Service_Init_result :: bool
  WaitForEnabledEnginesRegistered_result :: bool
  DataSubstrate_Start_result :: bool
  Service_Start_result :: bool
  Server_Start_result :: int
  signals_while_running :: "int list"

definition VERSION :: string where
  "VERSION = ''1.0.0''"

definition SIGINT :: int where
  "SIGINT = 2"

definition SIGTERM :: int where
  "SIGTERM = 15"

definition initial_InitState :: InitState where
  "initial_InitState =
     \<lparr>data_substrate_init = False, eloqkv_init = False,
      eloqsql_thread_started = False, eloqkv_service_ptr = None\<rparr>"

definition initial_globals :: globals where
  "initial_globals =
     \<lparr>g_shutdown_requested = False, g_init_state = initial_InitState,
      g_eloqkv_server = None, g_eloqkv_service = None,
      g_eloqsql_thread = False, trace = []\<rparr>"

section \<open>Primitive steps\<close>

definition emit :: "event \<Rightarrow> globals \<Rightarrow> globals" where
  "emit ev s = s\<lparr>trace := trace s @ [ev]\<rparr>"

definition LOG :: "severity \<Rightarrow> piece list \<Rightarrow> globals \<Rightarrow> globals" where
  "LOG sev msg s = emit (Log sev msg) s"

definition cout :: "piece list \<Rightarrow> globals \<Rightarrow> globals" where
  "cout msg s = emit (Cout msg) s"

text \<open>
  \<^verbatim>\<open>g_shutdown_requested.compare_exchange_strong(expected, desired)\<close>: the flag is
  replaced by \<open>desired\<close> and \<open>True\<close> returned when it holds \<open>expected\<close>; otherwise it is
  left alone and \<open>False\<close> returned.
\<close>

definition compare_exchange_strong :: "bool \<Rightarrow> bool \<Rightarrow> globals \<Rightarrow> bool \<times> globals" where
  "compare_exchange_strong expected desired s =
     (if g_shutdown_requested s = expected
      then (True, s\<lparr>g_shutdown_requested := desired\<rparr>)
      else (False, s))"

text \<open>\<^verbatim>\<open>unique_ptr::reset()\<close>: the owned object, if any, is destroyed.\<close>

definition reset_eloqkv_service :: "globals \<Rightarrow> globals" where
  "reset_eloqkv_service s =
     (case g_eloqkv_service s of
        None \<Rightarrow> s
      | Some p \<Rightarrow> (emit (Delete p) s)\<lparr>g_eloqkv_service := None\<rparr>)"

definition reset_eloqkv_server :: "globals \<Rightarrow> globals" where
  "reset_eloqkv_server s =
     (case g_eloqkv_server s of
        None \<Rightarrow> s
      | Some p \<Rightarrow> (emit (Delete p) s)\<lparr>g_eloqkv_server := None\<rparr>)"

section \<open>CleanupComponents\<close>

text \<open>The three blocks of \<^verbatim>\<open>CleanupComponents\<close>, in the order of the source.\<close>

definition cleanup_DataSubstrate :: "globals \<Rightarrow> globals" where
  "cleanup_DataSubstrate s =
     (if data_substrate_init (g_init_state s) then
        (let s = LOG INFO [Str ''Shutting down DataSubstrate''] s;
             s = emit DataSubstrate_Shutdown s;
             s = LOG INFO [Str ''DataSubstrate shut down''] s
         in s\<lparr>g_init_state := (g_init_state s)\<lparr>data_substrate_init := False\<rparr>\<rparr>)
      else s)"

definition cleanup_EloqKV :: "globals \<Rightarrow> globals" where
  "cleanup_EloqKV s =
     (let s = (if eloqkv_init (g_init_state s) \<and> eloqkv_service_ptr (g_init_state s) \<noteq> None then
                 (let s = LOG INFO [Str ''Stopping EloqKV service''] s;
                      s = emit Service_Stop s;
                      s = LOG INFO [Str ''EloqKV service stopped''] s
                  in s\<lparr>g_init_state := (g_init_state s)\<lparr>eloqkv_init := False\<rparr>\<rparr>)
               else s);
          s = reset_eloqkv_service s;
          s = reset_eloqkv_server s;
          s = s\<lparr>g_init_state := (g_init_state s)\<lparr>eloqkv_service_ptr := None\<rparr>\<rparr>
      in s\<lparr>g_init_state := (g_init_state s)\<lparr>eloqkv_init := False\<rparr>\<rparr>)"

definition cleanup_EloqSQL :: "globals \<Rightarrow> globals" where
  "cleanup_EloqSQL s =
     (if eloqsql_thread_started (g_init_state s) then
        (let s = LOG INFO [Str ''Shutting down EloqSQL server''] s;
             s = emit Shutdown_mysqld s;
             s = (if g_eloqsql_thread s then
                    (let s = LOG INFO [Str ''Joining EloqSQL thread''] s;
                         s = (emit Thread_join s)\<lparr>g_eloqsql_thread := False\<rparr>
                     in LOG INFO [Str ''EloqSQL thread joined''] s)
                  else s)
         in s\<lparr>g_init_state := (g_init_state s)\<lparr>eloqsql_thread_started := False\<rparr>\<rparr>)
      else s)"

definition CleanupComponents :: "build \<Rightarrow> globals \<Rightarrow> globals" where
  "CleanupComponents b s =
     (let s = cleanup_DataSubstrate s;
          s = (if ELOQ_MODULE_ELOQKV b then cleanup_EloqKV s else s);
          s = (if ELOQ_MODULE_ELOQSQL b then cleanup_EloqSQL s else s)
      in s)"

section \<open>SignalHandler\<close>

definition SignalHandler :: "build \<Rightarrow> int \<Rightarrow> globals \<Rightarrow> globals" where
  "SignalHandler b signal s =
     (case compare_exchange_strong False True s of
        (False, s) \<Rightarrow> s
      | (True, s) \<Rightarrow>
          (let s = LOG INFO [Str ''Received signal '', Num signal, Str '', initiating shutdown...''] s;
               s = CleanupComponents b s
           in LOG INFO [Str ''Shutdown complete''] s))"

text \<open>The handler run once for each signal of a list, in order of delivery.\<close>

fun deliver :: "build \<Rightarrow> int list \<Rightarrow> globals \<Rightarrow> globals" where
  "deliver b [] s = s"
| "deliver b (signal # rest) s = deliver b rest (SignalHandler b signal s)"

section \<open>main\<close>

text \<open>
  The locals of \<^verbatim>\<open>main\<close> that outlive one step: \<^verbatim>\<open>return_code\<close> and the raw pointer
  \<^verbatim>\<open>eloqkv_service_ptr\<close> taken from \<^verbatim>\<open>g_eloqkv_service.get()\<close>.
\<close>

record frame =
  return_code :: int
  eloqkv_service_ptr_local :: "object option"

text \<open>
  How a step leaves the straight line: \<^verbatim>\<open>return n\<close> on the spot, or \<^verbatim>\<open>goto cleanup\<close>.
  A step that answers \<open>None\<close> falls through to the next one.
\<close>

datatype jump = Return int | Goto_cleanup

type_synonym step = "frame \<times> globals \<Rightarrow> jump option \<times> frame \<times> globals"

fun run_steps :: "step list \<Rightarrow> frame \<times> globals \<Rightarrow> jump option \<times> frame \<times> globals" where
  "run_steps [] x = (None, x)"
| "run_steps (f # fs) x =
     (case f x of
        (None, x') \<Rightarrow> run_steps fs x'
      | (Some j, x') \<Rightarrow> (Some j, x'))"

definition initial_frame :: frame where
  "initial_frame = \<lparr>return_code = 0, eloqkv_service_ptr_local = None\<rparr>"

text \<open>Lines 128 to 142: version, flags, logging, banner, signal handlers.\<close>

definition prologue :: "build \<Rightarrow> step" where
  "prologue b = (\<lambda>(fr, s).
     (let s = emit (SetVersionString VERSION) s;
          s = emit ParseCommandLineFlags s;
          s = (if BRPC_WITH_GLOG b then emit InitGoogleLogging s else s);
          s = cout [Str ''======================================''] s;
          s = cout [Str ''EloqDB Database Server v'', Str VERSION] s;
          s = cout [Str ''======================================''] s;
          s = emit (InstallSignalHandler SIGINT) s;
          s = emit (InstallSignalHandler SIGTERM) s
      in (None, fr\<lparr>return_code := 0\<rparr>, s)))"

text \<open>Step 1: \<^verbatim>\<open>DataSubstrate::Init(FLAGS_config)\<close>.\<close>

definition init_DataSubstrate :: "env \<Rightarrow> step" where
  "init_DataSubstrate e = (\<lambda>(fr, s).
     (let s = cout [Str ''Initializing data substrate...''] s;
          s = emit (DataSubstrate_Init (FLAGS_config e)) s
      in if \<not> DataSubstrate_Init_result e then
           (let s = LOG ERROR [Str ''Failed to initialize DataSubstrate''] s;
                s = emit ShutdownGoogleLogging s
            in (Some (Return (- 1)), fr, s))
         else
           (let s = s\<lparr>g_init_state := (g_init_state s)\<lparr>data_substrate_init := True\<rparr>\<rparr>;
                s = LOG INFO [Str ''Data substrate initialized (config loaded)''] s;
                s = cout [Str ''Data substrate initialized''] s
            in (None, fr, s))))"

text \<open>
  Step 2, relational engine: enable it and start the thread that runs
  \<^verbatim>\<open>mysqld_main\<close>. What that thread does is the engine's business.
\<close>

definition start_EloqSQL :: "build \<Rightarrow> step" where
  "start_EloqSQL b = (\<lambda>(fr, s).
     if ELOQ_MODULE_ELOQSQL b then
       (let s = emit (DataSubstrate_EnableEngine EloqSql) s;
            s = cout [Str ''Starting EloqSQL initialization...''] s;
            s = LOG INFO [Str ''Launching EloqSQL main thread''] s;
            s = (emit Thread_mysqld_main s)\<lparr>g_eloqsql_thread := True\<rparr>;
            s = s\<lparr>g_init_state := (g_init_state s)\<lparr>eloqsql_thread_started := True\<rparr>\<rparr>
        in (None, fr, s))
     else (None, fr, s))"

text \<open>Step 2, key-value engine: enable it, build server and service, first-phase init.\<close>

definition init_EloqKV :: "build \<Rightarrow> env \<Rightarrow> step" where
  "init_EloqKV b e = (\<lambda>(fr, s).
     if ELOQ_MODULE_ELOQKV b then
       (let s = emit (DataSubstrate_EnableEngine EloqKv) s;
            s = cout [Str ''Starting EloqKV server...''] s;
            eloqkv_config =
              (if FLAGS_eloqkv_config e = [] then FLAGS_config e else FLAGS_eloqkv_config e);
            s = (emit New_Server s)\<lparr>g_eloqkv_server := Some BrpcServer\<rparr>;
            s = (emit (New_RedisServiceImpl eloqkv_config VERSION) s)
                  \<lparr>g_eloqkv_service := Some RedisServiceImpl\<rparr>;
            fr = fr\<lparr>eloqkv_service_ptr_local := g_eloqkv_service s\<rparr>;
            s = emit (GetCommandLineOption ''bthread_concurrency'') s;
            s = emit Service_Init s
        in if \<not> Service_Init_result e then
             (let s = LOG ERROR [Str ''Failed to initialize EloqKV service''] s;
                  fr = fr\<lparr>return_code := - 1\<rparr>
              in (Some Goto_cleanup, fr, s))
           else
             (let s = s\<lparr>g_init_state := (g_init_state s)\<lparr>eloqkv_init := True\<rparr>\<rparr>;
                  s = s\<lparr>g_init_state := (g_init_state s)
                         \<lparr>eloqkv_service_ptr := eloqkv_service_ptr_local fr\<rparr>\<rparr>
              in (None, fr, s)))
     else (None, fr, s))"

text \<open>Step 3: the registration barrier.\<close>

definition wait_for_engines :: "env \<Rightarrow> step" where
  "wait_for_engines e = (\<lambda>(fr, s).
     (let s = cout [Str ''Waiting for enabled engines to register...''] s;
          s = emit (DataSubstrate_WaitForEnabledEnginesRegistered 600000) s
      in if \<not> WaitForEnabledEnginesRegistered_result e then
           (let s = LOG ERROR [Str ''Timed out waiting for engines to register''] s;
                fr = fr\<lparr>return_code := - 1\<rparr>
            in (Some Goto_cleanup, fr, s))
         else (None, fr, LOG INFO [Str ''All enabled engines registered successfully''] s)))"

text \<open>Step 4: \<^verbatim>\<open>ds.Start()\<close>.\<close>

definition start_DataSubstrate :: "env \<Rightarrow> step" where
  "start_DataSubstrate e = (\<lambda>(fr, s).
     (let s = cout [Str ''Starting data substrate services...''] s;
          s = emit DataSubstrate_Start s
      in if \<not> DataSubstrate_Start_result e then
           (let s = LOG ERROR [Str ''Failed to start DataSubstrate''] s;
                fr = fr\<lparr>return_code := - 1\<rparr>
            in (Some Goto_cleanup, fr, s))
         else
           (let s = LOG INFO [Str ''Data substrate started successfully''] s;
                s = cout [Str ''Data substrate started''] s
            in (None, fr, s))))"

text \<open>
  The key-value engine's second phase and the start of its server. \<^verbatim>\<open>release()\<close> empties
  \<open>g_eloqkv_service\<close> and hands the pointer to the server's options.
\<close>

definition start_EloqKV :: "build \<Rightarrow> env \<Rightarrow> step" where
  "start_EloqKV b e = (\<lambda>(fr, s).
     if ELOQ_MODULE_ELOQKV b then
       (let s = emit Service_Start s
        in if \<not> Service_Start_result e then
             (let s = LOG ERROR [Str ''Failed to start EloqKV service (second phase)''] s;
                  fr = fr\<lparr>return_code := - 1\<rparr>
              in (Some Goto_cleanup, fr, s))
           else
             (let s = s\<lparr>g_init_state := (g_init_state s)
                         \<lparr>eloqkv_service_ptr := eloqkv_service_ptr_local fr\<rparr>\<rparr>;
                  num_threads = bthread_concurrency e;
                  redis_service = g_eloqkv_service s;
                  s = s\<lparr>g_eloqkv_service := None\<rparr>;
                  s = emit (Server_Start (redis_ip_port e) num_threads redis_service False) s
              in if Server_Start_result e \<noteq> 0 then
                   (let s = LOG ERROR [Str ''Failed to start EloqKV server''] s;
                        fr = fr\<lparr>return_code := - 1\<rparr>
                    in (Some Goto_cleanup, fr, s))
                 else
                   (let s = LOG INFO [Str ''EloqKV server started on '', Str (redis_ip_port e)] s;
                        s = cout [Str ''EloqKV server listening on '', Str (redis_ip_port e)] s;
                        s = emit Server_GetAcceptor s
                    in (None, fr, s))))
     else (None, fr, s))"

text \<open>
  The banner and the wait for a shutdown signal. \<^verbatim>\<open>RunUntilAskedToQuit\<close> returns once the
  process has been asked to quit; the handlers of the signals delivered meanwhile have
  run by then.
\<close>

definition wait_for_shutdown :: "build \<Rightarrow> env \<Rightarrow> step" where
  "wait_for_shutdown b e = (\<lambda>(fr, s).
     (let s = cout [Str ''======================================''] s;
          s = cout [Str ''All servers started successfully''] s;
          s = cout [Str ''Press Ctrl+C to shutdown''] s;
          s = cout [Str ''======================================''] s;
          s = (if ELOQ_MODULE_ELOQKV b then
                 (if g_eloqkv_server s \<noteq> None
                  then deliver b (signals_while_running e) (emit Server_RunUntilAskedToQuit s)
                  else s)
               else s)
      in (None, fr, s)))"

text \<open>Everything of \<^verbatim>\<open>main\<close> above the label \<^verbatim>\<open>cleanup\<close>.\<close>

definition startup :: "build \<Rightarrow> env \<Rightarrow> jump option \<times> frame \<times> globals" where
  "startup b e =
     run_steps
       [prologue b, init_DataSubstrate e, start_EloqSQL b, init_EloqKV b e,
        wait_for_engines e, start_DataSubstrate e, start_EloqKV b e, wait_for_shutdown b e]
       (initial_frame, initial_globals)"

text \<open>The label \<^verbatim>\<open>cleanup\<close> and what follows it.\<close>

definition cleanup_label :: "build \<Rightarrow> frame \<times> globals \<Rightarrow> int \<times> globals" where
  "cleanup_label b = (\<lambda>(fr, s).
     (let s = CleanupComponents b s;
          s = (if BRPC_WITH_GLOG b then emit ShutdownGoogleLogging s else s)
      in (return_code fr, s)))"

text \<open>\<^verbatim>\<open>main\<close>: the value it returns and the globals it leaves.\<close>

definition main :: "build \<Rightarrow> env \<Rightarrow> int \<times> globals" where
  "main b e =
     (case startup b e of
        (Some (Return n), fr, s) \<Rightarrow> (n, s)
      | (Some Goto_cleanup, x) \<Rightarrow> cleanup_label b x
      | (None, x) \<Rightarrow> cleanup_label b x)"

text \<open>
  The status the parent process sees: the low eight bits of what \<^verbatim>\<open>main\<close> returned.
\<close>

definition exit_status :: "int \<Rightarrow> 8 word" where
  "exit_status n = word_of_int n"

section \<open>Observing a run\<close>

text \<open>The events of a trace that satisfy a predicate, in order.\<close>

definition events_where :: "(event \<Rightarrow> bool) \<Rightarrow> globals \<Rightarrow> event list" where
  "events_where P s = filter P (trace s)"

text \<open>A call into a collaborator, as opposed to a line of output.\<close>

fun is_call :: "event \<Rightarrow> bool" where
  "is_call (Log sev msg) = False"
| "is_call (Cout msg) = False"
| "is_call ev = True"

definition calls :: "globals \<Rightarrow> event list" where
  "calls s = events_where is_call s"

text \<open>The life of the relational engine's thread: started, asked to stop, joined.\<close>

fun is_thread_event :: "event \<Rightarrow> bool" where
  "is_thread_event Thread_mysqld_main = True"
| "is_thread_event Shutdown_mysqld = True"
| "is_thread_event Thread_join = True"
| "is_thread_event ev = False"

fun is_service_construction :: "event \<Rightarrow> bool" where
  "is_service_construction (New_RedisServiceImpl path version) = True"
| "is_service_construction ev = False"

fun is_registration_wait :: "event \<Rightarrow> bool" where
  "is_registration_wait (DataSubstrate_WaitForEnabledEnginesRegistered timeout) = True"
| "is_registration_wait ev = False"

text \<open>
  What one run of \<^verbatim>\<open>CleanupComponents\<close> adds to the trace, read off the globals on
  entry. Lemma \<open>CleanupComponents_trace\<close> below proves that the code adds exactly this.
\<close>

definition teardown_events :: "build \<Rightarrow> globals \<Rightarrow> event list" where
  "teardown_events b s =
     (if data_substrate_init (g_init_state s)
      then [Log INFO [Str ''Shutting down DataSubstrate''], DataSubstrate_Shutdown,
            Log INFO [Str ''DataSubstrate shut down'']]
      else []) @
     (if ELOQ_MODULE_ELOQKV b
      then (if eloqkv_init (g_init_state s) \<and> eloqkv_service_ptr (g_init_state s) \<noteq> None
            then [Log INFO [Str ''Stopping EloqKV service''], Service_Stop,
                  Log INFO [Str ''EloqKV service stopped'']]
            else []) @
           (case g_eloqkv_service s of None \<Rightarrow> [] | Some p \<Rightarrow> [Delete p]) @
           (case g_eloqkv_server s of None \<Rightarrow> [] | Some p \<Rightarrow> [Delete p])
      else []) @
     (if ELOQ_MODULE_ELOQSQL b \<and> eloqsql_thread_started (g_init_state s)
      then [Log INFO [Str ''Shutting down EloqSQL server''], Shutdown_mysqld] @
           (if g_eloqsql_thread s
            then [Log INFO [Str ''Joining EloqSQL thread''], Thread_join,
                  Log INFO [Str ''EloqSQL thread joined'']]
            else [])
      else [])"

text \<open>
  Some step after \<^verbatim>\<open>DataSubstrate::Init\<close> reports failure: the key-value service's
  \<^verbatim>\<open>Init\<close>, the registration wait, \<^verbatim>\<open>ds.Start()\<close>, the service's second-phase
  \<^verbatim>\<open>Start\<close> or the server's \<^verbatim>\<open>Start\<close>. The key-value steps exist only in a build with
  that module.
\<close>

definition later_step_fails :: "build \<Rightarrow> env \<Rightarrow> bool" where
  "later_step_fails b e =
     ((ELOQ_MODULE_ELOQKV b \<and> \<not> Service_Init_result e) \<or>
      \<not> WaitForEnabledEnginesRegistered_result e \<or>
      \<not> DataSubstrate_Start_result e \<or>
      (ELOQ_MODULE_ELOQKV b \<and> (\<not> Service_Start_result e \<or> Server_Start_result e \<noteq> 0)))"

section \<open>Concrete builds, environments and states\<close>

definition all_modules :: build where
  "all_modules =
     \<lparr>ELOQ_MODULE_ELOQKV = True, ELOQ_MODULE_ELOQSQL = True, BRPC_WITH_GLOG = True\<rparr>"

definition sql_only :: build where
  "sql_only =
     \<lparr>ELOQ_MODULE_ELOQKV = False, ELOQ_MODULE_ELOQSQL = True, BRPC_WITH_GLOG = True\<rparr>"

text \<open>Every call succeeds, no override path is given, no signal handler runs.\<close>

definition all_succeed :: env where
  "all_succeed =
     \<lparr>FLAGS_config = ''eloq.ini'', FLAGS_eloqkv_config = [], FLAGS_eloqsql_config = [],
      bthread_concurrency = 4, redis_ip_port = ''127.0.0.1:6379'',
      DataSubstrate_Init_result = True, Service_Init_result = True,
      WaitForEnabledEnginesRegistered_result = True, DataSubstrate_Start_result = True,
      Service_Start_result = True, Server_Start_result = 0, signals_while_running = []\<rparr>"

definition init_fails :: env where
  "init_fails = all_succeed\<lparr>DataSubstrate_Init_result := False\<rparr>"

definition registration_times_out :: env where
  "registration_times_out = all_succeed\<lparr>WaitForEnabledEnginesRegistered_result := False\<rparr>"

definition kv_override :: env where
  "kv_override = all_succeed\<lparr>FLAGS_eloqkv_config := ''kv.ini''\<rparr>"

text \<open>The globals of a process whose engines are all up, as \<^verbatim>\<open>main\<close> leaves them.\<close>

definition serving :: globals where
  "serving =
     \<lparr>g_shutdown_requested = False,
      g_init_state =
        \<lparr>data_substrate_init = True, eloqkv_init = True, eloqsql_thread_started = True,
         eloqkv_service_ptr = Some RedisServiceImpl\<rparr>,
      g_eloqkv_server = Some BrpcServer, g_eloqkv_service = None,
      g_eloqsql_thread = True, trace = []\<rparr>"

text \<open>\<^verbatim>\<open>eloqkv_init\<close> set while \<^verbatim>\<open>eloqkv_service_ptr\<close> is still null.\<close>

definition flag_without_pointer :: globals where
  "flag_without_pointer =
     initial_globals\<lparr>g_init_state := initial_InitState\<lparr>eloqkv_init := True\<rparr>\<rparr>"

text \<open>The wait for a shutdown request and every call that tears something down.\<close>

fun is_shutdown_event :: "event \<Rightarrow> bool" where
  "is_shutdown_event Server_RunUntilAskedToQuit = True"
| "is_shutdown_event DataSubstrate_Shutdown = True"
| "is_shutdown_event Service_Stop = True"
| "is_shutdown_event Shutdown_mysqld = True"
| "is_shutdown_event Thread_join = True"
| "is_shutdown_event ShutdownGoogleLogging = True"
| "is_shutdown_event ev = False"

section \<open>Supporting lemmas\<close>

subsection \<open>emit, LOG, cout\<close>

lemma emit_fields [simp]:
  "g_shutdown_requested (emit ev s) = g_shutdown_requested s"
  "g_init_state (emit ev s) = g_init_state s"
  "g_eloqkv_server (emit ev s) = g_eloqkv_server s"
  "g_eloqkv_service (emit ev s) = g_eloqkv_service s"
  "g_eloqsql_thread (emit ev s) = g_eloqsql_thread s"
  "trace (emit ev s) = trace s @ [ev]"
  by (simp_all add: emit_def)

lemma LOG_fields [simp]:
  "g_shutdown_requested (LOG sev msg s) = g_shutdown_requested s"
  "g_init_state (LOG sev msg s) = g_init_state s"
  "g_eloqkv_server (LOG sev msg s) = g_eloqkv_server s"
  "g_eloqkv_service (LOG sev msg s) = g_eloqkv_service s"
  "g_eloqsql_thread (LOG sev msg s) = g_eloqsql_thread s"
  "trace (LOG sev msg s) = trace s @ [Log sev msg]"
  by (simp_all add: LOG_def)

lemma cout_fields [simp]:
  "g_shutdown_requested (cout msg s) = g_shutdown_requested s"
  "g_init_state (cout msg s) = g_init_state s"
  "g_eloqkv_server (cout msg s) = g_eloqkv_server s"
  "g_eloqkv_service (cout msg s) = g_eloqkv_service s"
  "g_eloqsql_thread (cout msg s) = g_eloqsql_thread s"
  "trace (cout msg s) = trace s @ [Cout msg]"
  by (simp_all add: cout_def)

subsection \<open>The three blocks, field by field\<close>

lemma cleanup_DataSubstrate_fields:
  "g_shutdown_requested (cleanup_DataSubstrate s) = g_shutdown_requested s"
  "g_init_state (cleanup_DataSubstrate s) = (g_init_state s)\<lparr>data_substrate_init := False\<rparr>"
  "g_eloqkv_server (cleanup_DataSubstrate s) = g_eloqkv_server s"
  "g_eloqkv_service (cleanup_DataSubstrate s) = g_eloqkv_service s"
  "g_eloqsql_thread (cleanup_DataSubstrate s) = g_eloqsql_thread s"
  "trace (cleanup_DataSubstrate s) = trace s @
     (if data_substrate_init (g_init_state s)
      then [Log INFO [Str ''Shutting down DataSubstrate''], DataSubstrate_Shutdown,
            Log INFO [Str ''DataSubstrate shut down'']]
      else [])"
  by (cases "g_init_state s"; simp add: cleanup_DataSubstrate_def Let_def)+

lemma cleanup_EloqKV_fields:
  "g_shutdown_requested (cleanup_EloqKV s) = g_shutdown_requested s"
  "g_init_state (cleanup_EloqKV s) =
     (g_init_state s)\<lparr>eloqkv_init := False, eloqkv_service_ptr := None\<rparr>"
  "g_eloqkv_server (cleanup_EloqKV s) = None"
  "g_eloqkv_service (cleanup_EloqKV s) = None"
  "g_eloqsql_thread (cleanup_EloqKV s) = g_eloqsql_thread s"
  "trace (cleanup_EloqKV s) = trace s @
     (if eloqkv_init (g_init_state s) \<and> eloqkv_service_ptr (g_init_state s) \<noteq> None
      then [Log INFO [Str ''Stopping EloqKV service''], Service_Stop,
            Log INFO [Str ''EloqKV service stopped'']]
      else []) @
     (case g_eloqkv_service s of None \<Rightarrow> [] | Some p \<Rightarrow> [Delete p]) @
     (case g_eloqkv_server s of None \<Rightarrow> [] | Some p \<Rightarrow> [Delete p])"
  by (simp_all add: cleanup_EloqKV_def reset_eloqkv_service_def reset_eloqkv_server_def Let_def
      split: option.splits)

lemma cleanup_EloqSQL_fields:
  "g_shutdown_requested (cleanup_EloqSQL s) = g_shutdown_requested s"
  "g_init_state (cleanup_EloqSQL s) = (g_init_state s)\<lparr>eloqsql_thread_started := False\<rparr>"
  "g_eloqkv_server (cleanup_EloqSQL s) = g_eloqkv_server s"
  "g_eloqkv_service (cleanup_EloqSQL s) = g_eloqkv_service s"
  "g_eloqsql_thread (cleanup_EloqSQL s) =
     (if eloqsql_thread_started (g_init_state s) then False else g_eloqsql_thread s)"
  "trace (cleanup_EloqSQL s) = trace s @
     (if eloqsql_thread_started (g_init_state s)
      then [Log INFO [Str ''Shutting down EloqSQL server''], Shutdown_mysqld] @
           (if g_eloqsql_thread s
            then [Log INFO [Str ''Joining EloqSQL thread''], Thread_join,
                  Log INFO [Str ''EloqSQL thread joined'']]
            else [])
      else [])"
  by (cases "g_init_state s"; simp add: cleanup_EloqSQL_def Let_def)+

lemma CleanupComponents_fields:
  "g_shutdown_requested (CleanupComponents b s) = g_shutdown_requested s"
  "g_eloqkv_server (CleanupComponents b s) =
     (if ELOQ_MODULE_ELOQKV b then None else g_eloqkv_server s)"
  "g_eloqkv_service (CleanupComponents b s) =
     (if ELOQ_MODULE_ELOQKV b then None else g_eloqkv_service s)"
  "g_eloqsql_thread (CleanupComponents b s) =
     (if ELOQ_MODULE_ELOQSQL b \<and> eloqsql_thread_started (g_init_state s)
      then False else g_eloqsql_thread s)"
  "data_substrate_init (g_init_state (CleanupComponents b s)) = False"
  "eloqkv_init (g_init_state (CleanupComponents b s)) =
     (if ELOQ_MODULE_ELOQKV b then False else eloqkv_init (g_init_state s))"
  "eloqkv_service_ptr (g_init_state (CleanupComponents b s)) =
     (if ELOQ_MODULE_ELOQKV b then None else eloqkv_service_ptr (g_init_state s))"
  "eloqsql_thread_started (g_init_state (CleanupComponents b s)) =
     (if ELOQ_MODULE_ELOQSQL b then False else eloqsql_thread_started (g_init_state s))"
  by (simp_all add: CleanupComponents_def Let_def cleanup_DataSubstrate_fields
      cleanup_EloqKV_fields cleanup_EloqSQL_fields)

lemma CleanupComponents_trace:
  "trace (CleanupComponents b s) = trace s @ teardown_events b s"
  by (simp add: CleanupComponents_def Let_def cleanup_DataSubstrate_fields
      cleanup_EloqKV_fields cleanup_EloqSQL_fields teardown_events_def)

lemma teardown_events_again: "teardown_events b (CleanupComponents b s) = []"
  by (simp add: teardown_events_def CleanupComponents_fields)

subsection \<open>Projections of the trace\<close>

lemma events_where_simps [simp]:
  "events_where P (emit ev s) = events_where P s @ (if P ev then [ev] else [])"
  "events_where P (LOG sev msg s) = events_where P s @ (if P (Log sev msg) then [Log sev msg] else [])"
  "events_where P (cout msg s) = events_where P s @ (if P (Cout msg) then [Cout msg] else [])"
  "events_where P (g_shutdown_requested_update f0 s) = events_where P s"
  "events_where P (g_init_state_update f1 s) = events_where P s"
  "events_where P (g_eloqkv_server_update f2 s) = events_where P s"
  "events_where P (g_eloqkv_service_update f3 s) = events_where P s"
  "events_where P (g_eloqsql_thread_update f4 s) = events_where P s"
  "events_where P initial_globals = []"
  by (simp_all add: events_where_def initial_globals_def)

lemma events_where_CleanupComponents:
  "events_where P (CleanupComponents b s) = events_where P s @ filter P (teardown_events b s)"
  by (simp add: events_where_def CleanupComponents_trace)

subsection \<open>The signal handler\<close>

lemma SignalHandler_requested: "g_shutdown_requested s \<Longrightarrow> SignalHandler b signal s = s"
  by (simp add: SignalHandler_def compare_exchange_strong_def)

lemma SignalHandler_first:
  "\<not> g_shutdown_requested s \<Longrightarrow>
   SignalHandler b signal s =
     LOG INFO [Str ''Shutdown complete'']
       (CleanupComponents b
          (LOG INFO [Str ''Received signal '', Num signal, Str '', initiating shutdown...'']
             (s\<lparr>g_shutdown_requested := True\<rparr>)))"
  by (simp add: SignalHandler_def compare_exchange_strong_def Let_def)

lemma SignalHandler_sets_flag: "g_shutdown_requested (SignalHandler b signal s)"
  by (cases "g_shutdown_requested s")
     (simp_all add: SignalHandler_requested SignalHandler_first CleanupComponents_fields)

lemma deliver_requested: "g_shutdown_requested s \<Longrightarrow> deliver b sigs s = s"
  by (induction sigs) (simp_all add: SignalHandler_requested)

lemma deliver_Cons: "deliver b (signal # rest) s = SignalHandler b signal s"
  by (simp add: deliver_requested SignalHandler_sets_flag)

lemma deliver_cases:
  "\<not> g_shutdown_requested s \<Longrightarrow>
   deliver b sigs s =
     (case sigs of
        [] \<Rightarrow> s
      | signal # rest \<Rightarrow>
          LOG INFO [Str ''Shutdown complete'']
            (CleanupComponents b
               (LOG INFO [Str ''Received signal '', Num signal, Str '', initiating shutdown...'']
                  (s\<lparr>g_shutdown_requested := True\<rparr>))))"
  by (cases sigs) (simp_all add: SignalHandler_first deliver_requested CleanupComponents_fields)

subsection \<open>The initial state\<close>

lemma initial_fields [simp]:
  "g_shutdown_requested initial_globals = False"
  "g_init_state initial_globals = initial_InitState"
  "g_eloqkv_server initial_globals = None"
  "g_eloqkv_service initial_globals = None"
  "g_eloqsql_thread initial_globals = False"
  "trace initial_globals = []"
  "data_substrate_init initial_InitState = False"
  "eloqkv_init initial_InitState = False"
  "eloqsql_thread_started initial_InitState = False"
  "eloqkv_service_ptr initial_InitState = None"
  "return_code initial_frame = 0"
  "eloqkv_service_ptr_local initial_frame = None"
  by (simp_all add: initial_globals_def initial_InitState_def initial_frame_def)

subsection \<open>The steps of main, field by field\<close>

text \<open>
  Each step is described by what it answers, the frame it leaves, every field of the
  globals it leaves, and the events it adds. The proofs about \<^verbatim>\<open>main\<close> use these
  descriptions and never unfold a step twice.
\<close>

lemma run_steps_Cons:
  "run_steps (f # fs) (fr, s) =
     (if fst (f (fr, s)) = None
      then run_steps fs (fst (snd (f (fr, s))), snd (snd (f (fr, s))))
      else f (fr, s))"
  by (cases "f (fr, s)") (auto split: option.splits)

declare run_steps.simps(2) [simp del]

lemma prologue_result:
  "fst (prologue b (fr, s)) = None"
  "fst (snd (prologue b (fr, s))) = fr\<lparr>return_code := 0\<rparr>"
  "g_shutdown_requested (snd (snd (prologue b (fr, s)))) = g_shutdown_requested s"
  "g_init_state (snd (snd (prologue b (fr, s)))) = g_init_state s"
  "g_eloqkv_server (snd (snd (prologue b (fr, s)))) = g_eloqkv_server s"
  "g_eloqkv_service (snd (snd (prologue b (fr, s)))) = g_eloqkv_service s"
  "g_eloqsql_thread (snd (snd (prologue b (fr, s)))) = g_eloqsql_thread s"
  "events_where P (snd (snd (prologue b (fr, s)))) = events_where P s @
     filter P
       ([SetVersionString VERSION, ParseCommandLineFlags] @
        (if BRPC_WITH_GLOG b then [InitGoogleLogging] else []) @
        [Cout [Str ''======================================''],
         Cout [Str ''EloqDB Database Server v'', Str VERSION],
         Cout [Str ''======================================''],
         InstallSignalHandler SIGINT, InstallSignalHandler SIGTERM])"
  by (simp_all add: prologue_def Let_def)

lemma init_DataSubstrate_result:
  "fst (init_DataSubstrate e (fr, s)) =
     (if DataSubstrate_Init_result e then None else Some (Return (- 1)))"
  "fst (snd (init_DataSubstrate e (fr, s))) = fr"
  "g_shutdown_requested (snd (snd (init_DataSubstrate e (fr, s)))) = g_shutdown_requested s"
  "g_init_state (snd (snd (init_DataSubstrate e (fr, s)))) =
     (if DataSubstrate_Init_result e
      then (g_init_state s)\<lparr>data_substrate_init := True\<rparr> else g_init_state s)"
  "g_eloqkv_server (snd (snd (init_DataSubstrate e (fr, s)))) = g_eloqkv_server s"
  "g_eloqkv_service (snd (snd (init_DataSubstrate e (fr, s)))) = g_eloqkv_service s"
  "g_eloqsql_thread (snd (snd (init_DataSubstrate e (fr, s)))) = g_eloqsql_thread s"
  "events_where P (snd (snd (init_DataSubstrate e (fr, s)))) = events_where P s @
     filter P
       ([Cout [Str ''Initializing data substrate...''], DataSubstrate_Init (FLAGS_config e)] @
        (if DataSubstrate_Init_result e
         then [Log INFO [Str ''Data substrate initialized (config loaded)''],
               Cout [Str ''Data substrate initialized'']]
         else [Log ERROR [Str ''Failed to initialize DataSubstrate''], ShutdownGoogleLogging]))"
  by (simp_all add: init_DataSubstrate_def Let_def)

lemma start_EloqSQL_result:
  "fst (start_EloqSQL b (fr, s)) = None"
  "fst (snd (start_EloqSQL b (fr, s))) = fr"
  "g_shutdown_requested (snd (snd (start_EloqSQL b (fr, s)))) = g_shutdown_requested s"
  "g_init_state (snd (snd (start_EloqSQL b (fr, s)))) =
     (if ELOQ_MODULE_ELOQSQL b
      then (g_init_state s)\<lparr>eloqsql_thread_started := True\<rparr> else g_init_state s)"
  "g_eloqkv_server (snd (snd (start_EloqSQL b (fr, s)))) = g_eloqkv_server s"
  "g_eloqkv_service (snd (snd (start_EloqSQL b (fr, s)))) = g_eloqkv_service s"
  "g_eloqsql_thread (snd (snd (start_EloqSQL b (fr, s)))) =
     (if ELOQ_MODULE_ELOQSQL b then True else g_eloqsql_thread s)"
  "events_where P (snd (snd (start_EloqSQL b (fr, s)))) = events_where P s @
     filter P
       (if ELOQ_MODULE_ELOQSQL b
        then [DataSubstrate_EnableEngine EloqSql,
              Cout [Str ''Starting EloqSQL initialization...''],
              Log INFO [Str ''Launching EloqSQL main thread''], Thread_mysqld_main]
        else [])"
  by (simp_all add: start_EloqSQL_def Let_def)

lemma init_EloqKV_result:
  "fst (init_EloqKV b e (fr, s)) =
     (if ELOQ_MODULE_ELOQKV b \<and> \<not> Service_Init_result e then Some Goto_cleanup else None)"
  "fst (snd (init_EloqKV b e (fr, s))) =
     (if ELOQ_MODULE_ELOQKV b
      then (if Service_Init_result e
            then fr\<lparr>eloqkv_service_ptr_local := Some RedisServiceImpl\<rparr>
            else fr\<lparr>eloqkv_service_ptr_local := Some RedisServiceImpl, return_code := - 1\<rparr>)
      else fr)"
  "g_shutdown_requested (snd (snd (init_EloqKV b e (fr, s)))) = g_shutdown_requested s"
  "g_init_state (snd (snd (init_EloqKV b e (fr, s)))) =
     (if ELOQ_MODULE_ELOQKV b \<and> Service_Init_result e
      then (g_init_state s)\<lparr>eloqkv_init := True, eloqkv_service_ptr := Some RedisServiceImpl\<rparr>
      else g_init_state s)"
  "g_eloqkv_server (snd (snd (init_EloqKV b e (fr, s)))) =
     (if ELOQ_MODULE_ELOQKV b then Some BrpcServer else g_eloqkv_server s)"
  "g_eloqkv_service (snd (snd (init_EloqKV b e (fr, s)))) =
     (if ELOQ_MODULE_ELOQKV b then Some RedisServiceImpl else g_eloqkv_service s)"
  "g_eloqsql_thread (snd (snd (init_EloqKV b e (fr, s)))) = g_eloqsql_thread s"
  "events_where P (snd (snd (init_EloqKV b e (fr, s)))) = events_where P s @
     filter P
       (if ELOQ_MODULE_ELOQKV b
        then [DataSubstrate_EnableEngine EloqKv, Cout [Str ''Starting EloqKV server...''],
              New_Server,
              New_RedisServiceImpl
                (if FLAGS_eloqkv_config e = [] then FLAGS_config e else FLAGS_eloqkv_config e)
                VERSION,
              GetCommandLineOption ''bthread_concurrency'', Service_Init] @
             (if Service_Init_result e then []
              else [Log ERROR [Str ''Failed to initialize EloqKV service'']])
        else [])"
  by (simp_all add: init_EloqKV_def Let_def)

lemma wait_for_engines_result:
  "fst (wait_for_engines e (fr, s)) =
     (if WaitForEnabledEnginesRegistered_result e then None else Some Goto_cleanup)"
  "fst (snd (wait_for_engines e (fr, s))) =
     (if WaitForEnabledEnginesRegistered_result e then fr else fr\<lparr>return_code := - 1\<rparr>)"
  "g_shutdown_requested (snd (snd (wait_for_engines e (fr, s)))) = g_shutdown_requested s"
  "g_init_state (snd (snd (wait_for_engines e (fr, s)))) = g_init_state s"
  "g_eloqkv_server (snd (snd (wait_for_engines e (fr, s)))) = g_eloqkv_server s"
  "g_eloqkv_service (snd (snd (wait_for_engines e (fr, s)))) = g_eloqkv_service s"
  "g_eloqsql_thread (snd (snd (wait_for_engines e (fr, s)))) = g_eloqsql_thread s"
  "events_where P (snd (snd (wait_for_engines e (fr, s)))) = events_where P s @
     filter P
       [Cout [Str ''Waiting for enabled engines to register...''],
        DataSubstrate_WaitForEnabledEnginesRegistered 600000,
        if WaitForEnabledEnginesRegistered_result e
        then Log INFO [Str ''All enabled engines registered successfully'']
        else Log ERROR [Str ''Timed out waiting for engines to register'']]"
  by (simp_all add: wait_for_engines_def Let_def)

lemma start_DataSubstrate_result:
  "fst (start_DataSubstrate e (fr, s)) =
     (if DataSubstrate_Start_result e then None else Some Goto_cleanup)"
  "fst (snd (start_DataSubstrate e (fr, s))) =
     (if DataSubstrate_Start_result e then fr else fr\<lparr>return_code := - 1\<rparr>)"
  "g_shutdown_requested (snd (snd (start_DataSubstrate e (fr, s)))) = g_shutdown_requested s"
  "g_init_state (snd (snd (start_DataSubstrate e (fr, s)))) = g_init_state s"
  "g_eloqkv_server (snd (snd (start_DataSubstrate e (fr, s)))) = g_eloqkv_server s"
  "g_eloqkv_service (snd (snd (start_DataSubstrate e (fr, s)))) = g_eloqkv_service s"
  "g_eloqsql_thread (snd (snd (start_DataSubstrate e (fr, s)))) = g_eloqsql_thread s"
  "events_where P (snd (snd (start_DataSubstrate e (fr, s)))) = events_where P s @
     filter P
       ([Cout [Str ''Starting data substrate services...''], DataSubstrate_Start] @
        (if DataSubstrate_Start_result e
         then [Log INFO [Str ''Data substrate started successfully''],
               Cout [Str ''Data substrate started'']]
         else [Log ERROR [Str ''Failed to start DataSubstrate'']]))"
  by (simp_all add: start_DataSubstrate_def Let_def)

lemma start_EloqKV_result:
  "fst (start_EloqKV b e (fr, s)) =
     (if ELOQ_MODULE_ELOQKV b \<and> (\<not> Service_Start_result e \<or> Server_Start_result e \<noteq> 0)
      then Some Goto_cleanup else None)"
  "fst (snd (start_EloqKV b e (fr, s))) =
     (if ELOQ_MODULE_ELOQKV b \<and> (\<not> Service_Start_result e \<or> Server_Start_result e \<noteq> 0)
      then fr\<lparr>return_code := - 1\<rparr> else fr)"
  "g_shutdown_requested (snd (snd (start_EloqKV b e (fr, s)))) = g_shutdown_requested s"
  "g_init_state (snd (snd (start_EloqKV b e (fr, s)))) =
     (if ELOQ_MODULE_ELOQKV b \<and> Service_Start_result e
      then (g_init_state s)\<lparr>eloqkv_service_ptr := eloqkv_service_ptr_local fr\<rparr>
      else g_init_state s)"
  "g_eloqkv_server (snd (snd (start_EloqKV b e (fr, s)))) = g_eloqkv_server s"
  "g_eloqkv_service (snd (snd (start_EloqKV b e (fr, s)))) =
     (if ELOQ_MODULE_ELOQKV b \<and> Service_Start_result e then None else g_eloqkv_service s)"
  "g_eloqsql_thread (snd (snd (start_EloqKV b e (fr, s)))) = g_eloqsql_thread s"
  "events_where P (snd (snd (start_EloqKV b e (fr, s)))) = events_where P s @
     filter P
       (if ELOQ_MODULE_ELOQKV b
        then Service_Start #
             (if Service_Start_result e
              then Server_Start (redis_ip_port e) (bthread_concurrency e) (g_eloqkv_service s) False #
                   (if Server_Start_result e \<noteq> 0
                    then [Log ERROR [Str ''Failed to start EloqKV server'']]
                    else [Log INFO [Str ''EloqKV server started on '', Str (redis_ip_port e)],
                          Cout [Str ''EloqKV server listening on '', Str (redis_ip_port e)],
                          Server_GetAcceptor])
              else [Log ERROR [Str ''Failed to start EloqKV service (second phase)'']])
        else [])"
  by (simp_all add: start_EloqKV_def Let_def)

lemma deliver_result:
  "g_shutdown_requested (deliver b sigs s) = (g_shutdown_requested s \<or> sigs \<noteq> [])"
  "g_eloqkv_server (deliver b sigs s) =
     (if sigs \<noteq> [] \<and> \<not> g_shutdown_requested s \<and> ELOQ_MODULE_ELOQKV b
      then None else g_eloqkv_server s)"
  "g_eloqkv_service (deliver b sigs s) =
     (if sigs \<noteq> [] \<and> \<not> g_shutdown_requested s \<and> ELOQ_MODULE_ELOQKV b
      then None else g_eloqkv_service s)"
  "g_eloqsql_thread (deliver b sigs s) =
     (if sigs \<noteq> [] \<and> \<not> g_shutdown_requested s \<and> ELOQ_MODULE_ELOQSQL b \<and>
         eloqsql_thread_started (g_init_state s)
      then False else g_eloqsql_thread s)"
  "data_substrate_init (g_init_state (deliver b sigs s)) =
     (if sigs \<noteq> [] \<and> \<not> g_shutdown_requested s
      then False else data_substrate_init (g_init_state s))"
  "eloqkv_init (g_init_state (deliver b sigs s)) =
     (if sigs \<noteq> [] \<and> \<not> g_shutdown_requested s \<and> ELOQ_MODULE_ELOQKV b
      then False else eloqkv_init (g_init_state s))"
  "eloqkv_service_ptr (g_init_state (deliver b sigs s)) =
     (if sigs \<noteq> [] \<and> \<not> g_shutdown_requested s \<and> ELOQ_MODULE_ELOQKV b
      then None else eloqkv_service_ptr (g_init_state s))"
  "eloqsql_thread_started (g_init_state (deliver b sigs s)) =
     (if sigs \<noteq> [] \<and> \<not> g_shutdown_requested s \<and> ELOQ_MODULE_ELOQSQL b
      then False else eloqsql_thread_started (g_init_state s))"
  by (cases "g_shutdown_requested s";
      simp add: deliver_requested deliver_cases CleanupComponents_fields split: list.splits)+

lemma teardown_events_frame [simp]:
  "teardown_events b (LOG sev msg s) = teardown_events b s"
  "teardown_events b (emit ev s) = teardown_events b s"
  "teardown_events b (cout msg s) = teardown_events b s"
  "teardown_events b (g_shutdown_requested_update f s) = teardown_events b s"
  by (simp_all add: teardown_events_def)

lemma deliver_events:
  "events_where P (deliver b sigs s) = events_where P s @
     (if sigs \<noteq> [] \<and> \<not> g_shutdown_requested s
      then filter P
             (Log INFO [Str ''Received signal '', Num (hd sigs), Str '', initiating shutdown...''] #
              teardown_events b s @ [Log INFO [Str ''Shutdown complete'']])
      else [])"
  by (cases "g_shutdown_requested s";
      simp add: deliver_requested deliver_cases events_where_CleanupComponents split: list.splits)

lemma wait_for_shutdown_result:
  "fst (wait_for_shutdown b e (fr, s)) = None"
  "fst (snd (wait_for_shutdown b e (fr, s))) = fr"
  "g_shutdown_requested (snd (snd (wait_for_shutdown b e (fr, s)))) =
     (g_shutdown_requested s \<or>
      (ELOQ_MODULE_ELOQKV b \<and> g_eloqkv_server s \<noteq> None \<and> signals_while_running e \<noteq> []))"
  "g_eloqkv_server (snd (snd (wait_for_shutdown b e (fr, s)))) =
     (if ELOQ_MODULE_ELOQKV b \<and> signals_while_running e \<noteq> [] \<and> \<not> g_shutdown_requested s
      then None else g_eloqkv_server s)"
  "g_eloqkv_service (snd (snd (wait_for_shutdown b e (fr, s)))) =
     (if ELOQ_MODULE_ELOQKV b \<and> g_eloqkv_server s \<noteq> None \<and>
         signals_while_running e \<noteq> [] \<and> \<not> g_shutdown_requested s
      then None else g_eloqkv_service s)"
  "g_eloqsql_thread (snd (snd (wait_for_shutdown b e (fr, s)))) =
     (if ELOQ_MODULE_ELOQKV b \<and> g_eloqkv_server s \<noteq> None \<and>
         signals_while_running e \<noteq> [] \<and> \<not> g_shutdown_requested s \<and>
         ELOQ_MODULE_ELOQSQL b \<and> eloqsql_thread_started (g_init_state s)
      then False else g_eloqsql_thread s)"
  "data_substrate_init (g_init_state (snd (snd (wait_for_shutdown b e (fr, s))))) =
     (if ELOQ_MODULE_ELOQKV b \<and> g_eloqkv_server s \<noteq> None \<and>
         signals_while_running e \<noteq> [] \<and> \<not> g_shutdown_requested s
      then False else data_substrate_init (g_init_state s))"
  "eloqkv_init (g_init_state (snd (snd (wait_for_shutdown b e (fr, s))))) =
     (if ELOQ_MODULE_ELOQKV b \<and> g_eloqkv_server s \<noteq> None \<and>
         signals_while_running e \<noteq> [] \<and> \<not> g_shutdown_requested s
      then False else eloqkv_init (g_init_state s))"
  "eloqkv_service_ptr (g_init_state (snd (snd (wait_for_shutdown b e (fr, s))))) =
     (if ELOQ_MODULE_ELOQKV b \<and> g_eloqkv_server s \<noteq> None \<and>
         signals_while_running e \<noteq> [] \<and> \<not> g_shutdown_requested s
      then None else eloqkv_service_ptr (g_init_state s))"
  "eloqsql_thread_started (g_init_state (snd (snd (wait_for_shutdown b e (fr, s))))) =
     (if ELOQ_MODULE_ELOQKV b \<and> g_eloqkv_server s \<noteq> None \<and>
         signals_while_running e \<noteq> [] \<and> \<not> g_shutdown_requested s \<and> ELOQ_MODULE_ELOQSQL b
      then False else eloqsql_thread_started (g_init_state s))"
  by (auto simp add: wait_for_shutdown_def Let_def deliver_result)

lemma wait_for_shutdown_events:
  "events_where P (snd (snd (wait_for_shutdown b e (fr, s)))) = events_where P s @
     filter P
       [Cout [Str ''======================================''],
        Cout [Str ''All servers started successfully''],
        Cout [Str ''Press Ctrl+C to shutdown''],
        Cout [Str ''======================================'']] @
     (if ELOQ_MODULE_ELOQKV b \<and> g_eloqkv_server s \<noteq> None
      then filter P [Server_RunUntilAskedToQuit] @
           (if signals_while_running e \<noteq> [] \<and> \<not> g_shutdown_requested s
            then filter P
                   (Log INFO [Str ''Received signal '', Num (hd (signals_while_running e)),
                              Str '', initiating shutdown...''] #
                    teardown_events b s @ [Log INFO [Str ''Shutdown complete'']])
            else [])
      else [])"
  by (simp add: wait_for_shutdown_def Let_def deliver_events)

lemmas step_results = prologue_result init_DataSubstrate_result start_EloqSQL_result
  init_EloqKV_result wait_for_engines_result start_DataSubstrate_result start_EloqKV_result
  wait_for_shutdown_result wait_for_shutdown_events

lemmas startup_simps = startup_def run_steps_Cons run_steps.simps(1) step_results

subsection \<open>Where startup ends\<close>

lemma filter_teardown_thread:
  "filter is_thread_event (teardown_events b s) =
     (if ELOQ_MODULE_ELOQSQL b \<and> eloqsql_thread_started (g_init_state s)
      then Shutdown_mysqld # (if g_eloqsql_thread s then [Thread_join] else [])
      else [])"
  by (simp add: teardown_events_def split: option.splits)

lemma startup_jump:
  "fst (startup b e) =
     (if \<not> DataSubstrate_Init_result e then Some (Return (- 1))
      else if later_step_fails b e then Some Goto_cleanup else None)"
  by (auto simp add: startup_simps later_step_fails_def)


lemma main_eq:
  "main b e =
     (if DataSubstrate_Init_result e
      then (return_code (fst (snd (startup b e))),
            (if BRPC_WITH_GLOG b then emit ShutdownGoogleLogging else id)
              (CleanupComponents b (snd (snd (startup b e)))))
      else (- 1, snd (snd (startup b e))))"
proof -
  obtain j fr s where st: "startup b e = (j, fr, s)"
    by (cases "startup b e")
  with startup_jump [of b e]
  have "j = (if \<not> DataSubstrate_Init_result e then Some (Return (- 1))
             else if later_step_fails b e then Some Goto_cleanup else None)"
    by simp
  then show ?thesis
    by (simp add: main_def st cleanup_label_def Let_def)
qed


lemma filter_teardown_calls:
  "filter is_call (teardown_events b s) =
     (if data_substrate_init (g_init_state s) then [DataSubstrate_Shutdown] else []) @
     (if ELOQ_MODULE_ELOQKV b \<and> eloqkv_init (g_init_state s) \<and>
         eloqkv_service_ptr (g_init_state s) \<noteq> None
      then [Service_Stop] else []) @
     (if ELOQ_MODULE_ELOQKV b
      then (case g_eloqkv_service s of None \<Rightarrow> [] | Some p \<Rightarrow> [Delete p]) @
           (case g_eloqkv_server s of None \<Rightarrow> [] | Some p \<Rightarrow> [Delete p])
      else []) @
     (if ELOQ_MODULE_ELOQSQL b \<and> eloqsql_thread_started (g_init_state s)
      then Shutdown_mysqld # (if g_eloqsql_thread s then [Thread_join] else [])
      else [])"
  by (simp add: teardown_events_def split: option.splits)

lemma filter_teardown_shutdown:
  "filter is_shutdown_event (teardown_events b s) =
     (if data_substrate_init (g_init_state s) then [DataSubstrate_Shutdown] else []) @
     (if ELOQ_MODULE_ELOQKV b \<and> eloqkv_init (g_init_state s) \<and>
         eloqkv_service_ptr (g_init_state s) \<noteq> None
      then [Service_Stop] else []) @
     (if ELOQ_MODULE_ELOQSQL b \<and> eloqsql_thread_started (g_init_state s)
      then Shutdown_mysqld # (if g_eloqsql_thread s then [Thread_join] else [])
      else [])"
  by (simp add: teardown_events_def split: option.splits)

lemma exit_status_values:
  "exit_status 0 = 0" "exit_status (- 1) \<noteq> 0" "exit_status (- 1) = 255"
  by (simp_all add: exit_status_def)

subsection \<open>The concrete inputs\<close>

lemma build_fields [simp]:
  "ELOQ_MODULE_ELOQKV all_modules" "ELOQ_MODULE_ELOQSQL all_modules" "BRPC_WITH_GLOG all_modules"
  "\<not> ELOQ_MODULE_ELOQKV sql_only" "ELOQ_MODULE_ELOQSQL sql_only" "BRPC_WITH_GLOG sql_only"
  by (simp_all add: all_modules_def sql_only_def)

lemma all_succeed_fields [simp]:
  "FLAGS_config all_succeed = ''eloq.ini''"
  "FLAGS_eloqkv_config all_succeed = []"
  "bthread_concurrency all_succeed = 4"
  "redis_ip_port all_succeed = ''127.0.0.1:6379''"
  "DataSubstrate_Init_result all_succeed"
  "Service_Init_result all_succeed"
  "WaitForEnabledEnginesRegistered_result all_succeed"
  "DataSubstrate_Start_result all_succeed"
  "Service_Start_result all_succeed"
  "Server_Start_result all_succeed = 0"
  "signals_while_running all_succeed = []"
  by (simp_all add: all_succeed_def)

lemma init_fails_fields [simp]:
  "FLAGS_config init_fails = ''eloq.ini''"
  "\<not> DataSubstrate_Init_result init_fails"
  by (simp_all add: init_fails_def)

lemma registration_times_out_fields [simp]:
  "DataSubstrate_Init_result registration_times_out"
  "Service_Init_result registration_times_out"
  "\<not> WaitForEnabledEnginesRegistered_result registration_times_out"
  by (simp_all add: registration_times_out_def)

lemma kv_override_fields [simp]:
  "FLAGS_config kv_override = ''eloq.ini''"
  "FLAGS_eloqkv_config kv_override = ''kv.ini''"
  "DataSubstrate_Init_result kv_override"
  by (simp_all add: kv_override_def)

lemma serving_fields [simp]:
  "g_shutdown_requested serving = False"
  "data_substrate_init (g_init_state serving) = True"
  "eloqkv_init (g_init_state serving) = True"
  "eloqsql_thread_started (g_init_state serving) = True"
  "eloqkv_service_ptr (g_init_state serving) = Some RedisServiceImpl"
  "g_eloqkv_server serving = Some BrpcServer"
  "g_eloqkv_service serving = None"
  "g_eloqsql_thread serving = True"
  "events_where P serving = []"
  by (simp_all add: serving_def events_where_def)

lemma flag_without_pointer_fields [simp]:
  "data_substrate_init (g_init_state flag_without_pointer) = False"
  "eloqkv_init (g_init_state flag_without_pointer) = True"
  "eloqsql_thread_started (g_init_state flag_without_pointer) = False"
  "eloqkv_service_ptr (g_init_state flag_without_pointer) = None"
  "g_eloqkv_server flag_without_pointer = None"
  "g_eloqkv_service flag_without_pointer = None"
  "g_eloqsql_thread flag_without_pointer = False"
  "events_where P flag_without_pointer = []"
  by (simp_all add: flag_without_pointer_def)

subsection \<open>What main has built when it reaches the teardown\<close>

text \<open>
  Wherever \<^verbatim>\<open>main\<close> stops starting things, \<^verbatim>\<open>eloqkv_init\<close> is set only together with a
  non-null \<^verbatim>\<open>eloqkv_service_ptr\<close>, and \<^verbatim>\<open>eloqsql_thread_started\<close> only while the thread
  is joinable.
\<close>

lemma startup_flag_has_pointer:
  "eloqkv_init (g_init_state (snd (snd (startup b e)))) \<Longrightarrow>
   eloqkv_service_ptr (g_init_state (snd (snd (startup b e)))) \<noteq> None"
  by (auto simp add: startup_simps split: if_splits)

lemma startup_thread_joinable:
  "eloqsql_thread_started (g_init_state (snd (snd (startup b e)))) \<Longrightarrow>
   g_eloqsql_thread (snd (snd (startup b e)))"
  by (auto simp add: startup_simps split: if_splits)

text \<open>
  In a build with the key-value module, a startup whose every step succeeds waits in
  \<^verbatim>\<open>RunUntilAskedToQuit\<close> before anything is torn down, whether or not a signal handler
  ran during the wait.
\<close>

lemma kv_build_waits_before_teardown:
  "ELOQ_MODULE_ELOQKV b \<Longrightarrow> DataSubstrate_Init_result e \<Longrightarrow> \<not> later_step_fails b e \<Longrightarrow>
   events_where is_shutdown_event (snd (main b e)) =
     [Server_RunUntilAskedToQuit, DataSubstrate_Shutdown, Service_Stop] @
     (if ELOQ_MODULE_ELOQSQL b then [Shutdown_mysqld, Thread_join] else []) @
     (if BRPC_WITH_GLOG b then [ShutdownGoogleLogging] else [])"
  by (auto simp add: main_eq startup_simps events_where_CleanupComponents
      filter_teardown_shutdown later_step_fails_def)

section \<open>Shutdown\<close>

text \<open>
  Claim C1. Shutdown is idempotent: running \<^verbatim>\<open>CleanupComponents\<close> a second time right
  after the first leaves every global as the first run left it, the trace included. So
  the second run shuts down no substrate, stops no engine, joins no thread and writes no
  log line. This holds from every state of the globals and in every build.
\<close>

theorem CleanupComponents_idempotent:
  "CleanupComponents b (CleanupComponents b s) = CleanupComponents b s"
  by (rule globals.equality)
     (simp_all add: CleanupComponents_fields CleanupComponents_trace teardown_events_again)

text \<open>
  From the state of a serving process, two runs in a row make each teardown call once.
\<close>

theorem CleanupComponents_idempotent_serving:
  "calls (CleanupComponents all_modules (CleanupComponents all_modules serving)) =
     [DataSubstrate_Shutdown, Service_Stop, Delete BrpcServer, Shutdown_mysqld, Thread_join]"
  using CleanupComponents_idempotent [of all_modules serving]
  by (simp add: calls_def events_where_CleanupComponents filter_teardown_calls)

text \<open>
  Claim C4. However many signals are delivered, the teardown runs once. The first
  delivery that finds \<^verbatim>\<open>g_shutdown_requested\<close> false sets it and runs one
  \<^verbatim>\<open>CleanupComponents\<close> between its two log lines; a delivery that finds the flag set
  returns the globals untouched; and after any delivery the flag is set, so every later
  delivery changes nothing.
\<close>

theorem signals_run_teardown_once:
  "deliver b (signal # rest) s =
     (if g_shutdown_requested s then s
      else LOG INFO [Str ''Shutdown complete'']
             (CleanupComponents b
                (LOG INFO [Str ''Received signal '', Num signal, Str '', initiating shutdown...'']
                   (s\<lparr>g_shutdown_requested := True\<rparr>)))) \<and>
   g_shutdown_requested (SignalHandler b signal s) \<and>
   deliver b rest (SignalHandler b signal s) = SignalHandler b signal s"
  by (simp add: deliver_Cons SignalHandler_requested SignalHandler_first SignalHandler_sets_flag
      deliver_requested del: deliver.simps)

text \<open>An interrupt followed by a terminate signal, delivered to a serving process.\<close>

theorem signals_run_teardown_once_serving:
  "calls (deliver all_modules [SIGINT, SIGTERM] serving) =
     [DataSubstrate_Shutdown, Service_Stop, Delete BrpcServer, Shutdown_mysqld, Thread_join]"
  using signals_run_teardown_once [of all_modules SIGINT "[SIGTERM]" serving]
  by (simp add: calls_def events_where_CleanupComponents filter_teardown_calls
      del: deliver.simps)

text \<open>
  Claim C5. From every state, \<^verbatim>\<open>CleanupComponents\<close> makes its calls in one fixed order:
  the substrate's shutdown, the key-value service's stop, the destruction of what the
  two owning pointers still hold, then the relational engine's shutdown and the join of
  its thread; at the label \<^verbatim>\<open>cleanup\<close> of \<^verbatim>\<open>main\<close> the logging shutdown follows in a build
  with glog. The substrate is shut down exactly when \<^verbatim>\<open>data_substrate_init\<close> is set. The
  service is stopped exactly when \<^verbatim>\<open>eloqkv_init\<close> is set and \<^verbatim>\<open>eloqkv_service_ptr\<close> is not
  null. The relational engine is asked to shut down exactly when
  \<^verbatim>\<open>eloqsql_thread_started\<close> is set, and its thread is joined when it is joinable. Each
  engine's part exists only in a build with that engine's module.
\<close>

theorem teardown_order:
  "calls (CleanupComponents b s) =
     calls s @
     (if data_substrate_init (g_init_state s) then [DataSubstrate_Shutdown] else []) @
     (if ELOQ_MODULE_ELOQKV b \<and> eloqkv_init (g_init_state s) \<and>
         eloqkv_service_ptr (g_init_state s) \<noteq> None
      then [Service_Stop] else []) @
     (if ELOQ_MODULE_ELOQKV b
      then (case g_eloqkv_service s of None \<Rightarrow> [] | Some p \<Rightarrow> [Delete p]) @
           (case g_eloqkv_server s of None \<Rightarrow> [] | Some p \<Rightarrow> [Delete p])
      else []) @
     (if ELOQ_MODULE_ELOQSQL b \<and> eloqsql_thread_started (g_init_state s)
      then Shutdown_mysqld # (if g_eloqsql_thread s then [Thread_join] else [])
      else []) \<and>
   calls (snd (cleanup_label b (fr, s))) =
     calls (CleanupComponents b s) @
     (if BRPC_WITH_GLOG b then [ShutdownGoogleLogging] else [])"
  by (simp add: calls_def events_where_CleanupComponents filter_teardown_calls
      cleanup_label_def Let_def)

text \<open>The teardown of a serving process, reached through the label \<^verbatim>\<open>cleanup\<close>.\<close>

theorem teardown_order_serving:
  "calls (snd (cleanup_label all_modules (initial_frame, serving))) =
     [DataSubstrate_Shutdown, Service_Stop, Delete BrpcServer, Shutdown_mysqld, Thread_join,
      ShutdownGoogleLogging]"
  using teardown_order [of all_modules serving initial_frame]
  by (simp add: calls_def)

text \<open>
  The flag alone does not decide the key-value stage: with \<^verbatim>\<open>eloqkv_init\<close> set and
  \<^verbatim>\<open>eloqkv_service_ptr\<close> null, the service is not stopped.
\<close>

theorem flag_without_pointer_skips_Stop:
  "eloqkv_init (g_init_state flag_without_pointer) \<and>
   ELOQ_MODULE_ELOQKV all_modules \<and>
   Service_Stop \<notin> set (calls (CleanupComponents all_modules flag_without_pointer))"
  by (simp add: calls_def events_where_CleanupComponents filter_teardown_calls)

text \<open>
  Claim C6. In a build with the relational module, a started and joinable thread is
  asked to shut down and then joined before \<^verbatim>\<open>CleanupComponents\<close> returns. In every run
  of \<^verbatim>\<open>main\<close> that gets past \<^verbatim>\<open>DataSubstrate::Init\<close>, whatever fails afterwards (the
  registration wait included), the thread is started, asked to shut down and joined, in
  that order and once each, and it is no longer joinable when \<^verbatim>\<open>main\<close> returns.
\<close>

theorem relational_thread_joined:
  "ELOQ_MODULE_ELOQSQL b \<Longrightarrow>
   (eloqsql_thread_started (g_init_state s) \<and> g_eloqsql_thread s \<longrightarrow>
      events_where is_thread_event (CleanupComponents b s) =
        events_where is_thread_event s @ [Shutdown_mysqld, Thread_join] \<and>
      \<not> g_eloqsql_thread (CleanupComponents b s)) \<and>
   (DataSubstrate_Init_result e \<longrightarrow>
      events_where is_thread_event (snd (main b e)) =
        [Thread_mysqld_main, Shutdown_mysqld, Thread_join] \<and>
      \<not> g_eloqsql_thread (snd (main b e)))"
  by (simp add: main_eq startup_simps events_where_CleanupComponents filter_teardown_thread
      CleanupComponents_fields)

text \<open>The run in which the registration wait times out.\<close>

theorem relational_thread_joined_timeout:
  "ELOQ_MODULE_ELOQSQL all_modules \<and>
   DataSubstrate_Init_result registration_times_out \<and>
   \<not> WaitForEnabledEnginesRegistered_result registration_times_out \<and>
   events_where is_thread_event (CleanupComponents all_modules serving) =
     [Shutdown_mysqld, Thread_join] \<and>
   events_where is_thread_event (snd (main all_modules registration_times_out)) =
     [Thread_mysqld_main, Shutdown_mysqld, Thread_join] \<and>
   \<not> g_eloqsql_thread (snd (main all_modules registration_times_out))"
  using relational_thread_joined [of all_modules serving registration_times_out]
  by simp

text \<open>
  Claim C3, evaluated on the run in which every step succeeds. The second phase empties
  \<^verbatim>\<open>g_eloqkv_service\<close> and passes the service to \<^verbatim>\<open>Server::Start\<close>; the teardown that
  follows still calls the service's \<^verbatim>\<open>Stop\<close>, through the raw pointer kept in
  \<^verbatim>\<open>g_init_state\<close>.
\<close>

theorem Stop_after_release:
  "g_eloqkv_service (snd (snd (startup all_modules all_succeed))) = None \<and>
   calls (snd (main all_modules all_succeed)) =
     [SetVersionString VERSION, ParseCommandLineFlags, InitGoogleLogging,
      InstallSignalHandler SIGINT, InstallSignalHandler SIGTERM,
      DataSubstrate_Init ''eloq.ini'',
      DataSubstrate_EnableEngine EloqSql, Thread_mysqld_main,
      DataSubstrate_EnableEngine EloqKv, New_Server, New_RedisServiceImpl ''eloq.ini'' VERSION,
      GetCommandLineOption ''bthread_concurrency'', Service_Init,
      DataSubstrate_WaitForEnabledEnginesRegistered 600000, DataSubstrate_Start,
      Service_Start, Server_Start ''127.0.0.1:6379'' 4 (Some RedisServiceImpl) False,
      Server_GetAcceptor, Server_RunUntilAskedToQuit,
      DataSubstrate_Shutdown, Service_Stop, Delete BrpcServer, Shutdown_mysqld, Thread_join,
      ShutdownGoogleLogging]"
  by (simp add: main_eq startup_simps calls_def events_where_CleanupComponents
      filter_teardown_calls)

section \<open>Startup\<close>




text \<open>
  Claim C7. If \<^verbatim>\<open>DataSubstrate::Init\<close> fails, \<^verbatim>\<open>main\<close> returns \<open>-1\<close>, a non-zero exit
  status. Its only calls are the ones before \<^verbatim>\<open>Init\<close>, \<^verbatim>\<open>Init\<close> itself and the logging
  shutdown: no engine is enabled, no service or server is built, no thread is started.
  No flag of \<^verbatim>\<open>g_init_state\<close> is set, the substrate's included.
\<close>

theorem Init_failure_starts_nothing:
  "\<not> DataSubstrate_Init_result e \<Longrightarrow>
   fst (main b e) = - 1 \<and> exit_status (fst (main b e)) \<noteq> 0 \<and>
   calls (snd (main b e)) =
     [SetVersionString VERSION, ParseCommandLineFlags] @
     (if BRPC_WITH_GLOG b then [InitGoogleLogging] else []) @
     [InstallSignalHandler SIGINT, InstallSignalHandler SIGTERM,
      DataSubstrate_Init (FLAGS_config e), ShutdownGoogleLogging] \<and>
   g_init_state (snd (main b e)) = initial_InitState \<and>
   g_eloqkv_server (snd (main b e)) = None \<and>
   g_eloqkv_service (snd (main b e)) = None \<and>
   \<not> g_eloqsql_thread (snd (main b e))"
  by (simp add: main_eq startup_simps calls_def exit_status_values)

text \<open>The run in which \<^verbatim>\<open>Init\<close> fails, in the build with every module.\<close>

theorem Init_failure_starts_nothing_run:
  "\<not> DataSubstrate_Init_result init_fails \<and>
   fst (main all_modules init_fails) = - 1 \<and>
   calls (snd (main all_modules init_fails)) =
     [SetVersionString VERSION, ParseCommandLineFlags, InitGoogleLogging,
      InstallSignalHandler SIGINT, InstallSignalHandler SIGTERM,
      DataSubstrate_Init ''eloq.ini'', ShutdownGoogleLogging] \<and>
   g_init_state (snd (main all_modules init_fails)) = initial_InitState"
  using Init_failure_starts_nothing [of init_fails all_modules]
  by simp

text \<open>
  Claim C8, evaluated on a build with the relational module only, every step
  succeeding. Nothing waits: \<^verbatim>\<open>ds.Start()\<close> is followed at once by the substrate's
  shutdown, the engine's shutdown and the join, and \<^verbatim>\<open>main\<close> returns \<open>0\<close>.
\<close>

theorem sql_only_never_waits:
  "fst (startup sql_only all_succeed) = None \<and>
   fst (main sql_only all_succeed) = 0 \<and>
   calls (snd (main sql_only all_succeed)) =
     [SetVersionString VERSION, ParseCommandLineFlags, InitGoogleLogging,
      InstallSignalHandler SIGINT, InstallSignalHandler SIGTERM,
      DataSubstrate_Init ''eloq.ini'',
      DataSubstrate_EnableEngine EloqSql, Thread_mysqld_main,
      DataSubstrate_WaitForEnabledEnginesRegistered 600000, DataSubstrate_Start,
      DataSubstrate_Shutdown, Shutdown_mysqld, Thread_join, ShutdownGoogleLogging]"
  by (simp add: main_eq startup_simps calls_def events_where_CleanupComponents
      filter_teardown_calls)

text \<open>
  Claim C9. In a build with the key-value module, every run that gets past
  \<^verbatim>\<open>DataSubstrate::Init\<close> constructs the key-value service once, with the path of
  \<^verbatim>\<open>--eloqkv_config\<close> when that flag is not empty and with the path of \<^verbatim>\<open>--config\<close> when
  it is.
\<close>

theorem eloqkv_config_fallback:
  "ELOQ_MODULE_ELOQKV b \<Longrightarrow> DataSubstrate_Init_result e \<Longrightarrow>
   events_where is_service_construction (snd (main b e)) =
     [New_RedisServiceImpl
        (if FLAGS_eloqkv_config e = [] then FLAGS_config e else FLAGS_eloqkv_config e)
        VERSION]"
  by (simp add: main_eq startup_simps events_where_CleanupComponents teardown_events_def
      split: option.splits)

text \<open>One run without an override and one with it.\<close>

theorem eloqkv_config_fallback_runs:
  "events_where is_service_construction (snd (main all_modules all_succeed)) =
     [New_RedisServiceImpl ''eloq.ini'' VERSION] \<and>
   events_where is_service_construction (snd (main all_modules kv_override)) =
     [New_RedisServiceImpl ''kv.ini'' VERSION]"
  using eloqkv_config_fallback [of all_modules all_succeed]
    eloqkv_config_fallback [of all_modules kv_override]
  by simp

text \<open>
  Claim C10. A run waits for registration at most once, and then with a timeout of
  600000 milliseconds, whatever the flags and the configuration say. It does so exactly
  when \<^verbatim>\<open>DataSubstrate::Init\<close> succeeded and, in a build with the key-value module, the
  service's first-phase init succeeded too.
\<close>

theorem registration_timeout_fixed:
  "events_where is_registration_wait (snd (main b e)) =
     (if DataSubstrate_Init_result e \<and> (ELOQ_MODULE_ELOQKV b \<longrightarrow> Service_Init_result e)
      then [DataSubstrate_WaitForEnabledEnginesRegistered 600000] else [])"
  by (simp add: main_eq startup_simps events_where_CleanupComponents teardown_events_def
      split: option.splits)

text \<open>The run in which the wait times out.\<close>

theorem registration_timeout_fixed_run:
  "events_where is_registration_wait (snd (main all_modules registration_times_out)) =
     [DataSubstrate_WaitForEnabledEnginesRegistered 600000]"
  using registration_timeout_fixed [of all_modules registration_times_out]
  by simp

end
